theory Spec2Isabelle
  imports Main
begin

section \<open>Device records (types/types.ts)\<close>

text \<open>
  The interface \<^verbatim>\<open>EspDevice\<close> declares \<^verbatim>\<open>deviceId: string\<close>, \<^verbatim>\<open>name: string\<close>,
  \<^verbatim>\<open>lightOn: boolean\<close>, \<^verbatim>\<open>rgbMode?: boolean\<close> and \<^verbatim>\<open>commandTopic: string\<close>.
  Records are built at run time from parsed JSON, where a field the sender left out reads
  as \<^verbatim>\<open>undefined\<close> and is stored as such. A field that can be \<^verbatim>\<open>undefined\<close> at run time is
  an option here (\<open>None\<close> is \<^verbatim>\<open>undefined\<close>); a field that is present has its declared type.
  \<^verbatim>\<open>name\<close> is always a string: the code that creates a record fills it.
\<close>

record EspDevice =
  deviceId :: "string option"
  name :: string
  lightOn :: "bool option"
  rgbMode :: "bool option"
  commandTopic :: "string option"

text \<open>JavaScript truthiness of a boolean-or-undefined value.\<close>

definition truthy :: "bool option \<Rightarrow> bool" where
  "truthy v = (v = Some True)"

text \<open>What a template literal \<^verbatim>\<open>${v}\<close> prints for a string-or-undefined value.\<close>

definition template :: "string option \<Rightarrow> string" where
  "template v = (case v of None \<Rightarrow> ''undefined'' | Some s \<Rightarrow> s)"

text \<open>\<^verbatim>\<open>v || d\<close> for a string-or-undefined \<open>v\<close>: \<open>v\<close> when it is truthy, else \<open>d\<close>.\<close>

definition or_else :: "string option \<Rightarrow> string \<Rightarrow> string" where
  "or_else v d = (case v of None \<Rightarrow> d | Some s \<Rightarrow> if s \<noteq> [] then s else d)"

section \<open>Inbound frames (hooks/useWebSocket.ts, websocket.onmessage)\<close>

text \<open>
  \<^verbatim>\<open>JSON.parse(event.data)\<close> belongs to the platform; its outcome is the argument of the
  handler. It throws a SyntaxError, or returns \<^verbatim>\<open>null\<close> (on which \<^verbatim>\<open>data.type\<close> throws a
  TypeError), or returns a value whose properties the handler reads: \<^verbatim>\<open>type\<close>,
  \<^verbatim>\<open>deviceId\<close>, \<^verbatim>\<open>name\<close>, \<^verbatim>\<open>lightOn\<close>, \<^verbatim>\<open>rgbmode\<close>, \<^verbatim>\<open>commandTopic\<close>. A property
  that is absent reads as \<^verbatim>\<open>undefined\<close> (\<open>None\<close>); so does every property of a parsed
  number, string, boolean or array, which is the frame with no field.
\<close>

record frame =
  f_type :: "string option"
  f_deviceId :: "string option"
  f_name :: "string option"
  f_lightOn :: "bool option"
  f_rgbmode :: "bool option"
  f_commandTopic :: "string option"

datatype parsed = SyntaxError | JsonNull | JsonObject frame

section \<open>The channel (hooks/useWebSocket.ts)\<close>

datatype readyState = CONNECTING | OPEN | CLOSING | CLOSED

text \<open>An object literal handed to \<^verbatim>\<open>JSON.stringify\<close>: its keys and values in order.\<close>

type_synonym json_obj = "(string \<times> string) list"

text \<open>
  \<^verbatim>\<open>connectWebSocket\<close> and the handlers it installs are closures: the \<^verbatim>\<open>isConnected\<close>
  and \<^verbatim>\<open>reconnectAttempts\<close> they read are the constants of the render in which
  \<^verbatim>\<open>connectWebSocket\<close> was created, not the current state.
\<close>

record render_scope =
  cap_isConnected :: bool
  cap_reconnectAttempts :: nat

record websocket =
  readyState :: readyState
  sent :: "json_obj list"
  handlers :: render_scope

text \<open>
  The state of the page: the three \<^verbatim>\<open>useState\<close> cells of \<^verbatim>\<open>SmartHomeDashboard\<close>, the
  three \<^verbatim>\<open>useState\<close> cells and the \<^verbatim>\<open>useRef\<close> of \<^verbatim>\<open>useWebSocket\<close> (whose own
  \<^verbatim>\<open>errorMessage\<close> is \<open>hookErrorMessage\<close> here), the timers scheduled by
  \<^verbatim>\<open>setTimeout\<close> and not yet fired, and the log of \<^verbatim>\<open>new WebSocket(url)\<close> calls.
\<close>

record dashboard =
  devices :: "EspDevice list"
  errorMessage :: "string option"
  deviceToDelete :: "string option"
  isConnected :: bool
  reconnectAttempts :: nat
  hookErrorMessage :: "string option"
  wsRef :: "websocket option"
  timers :: "render_scope list"
  connects :: "string list"

definition MAX_RECONNECT_ATTEMPTS :: nat where
  "MAX_RECONNECT_ATTEMPTS = 5"

definition initial :: dashboard where
  "initial = \<lparr>devices = [], errorMessage = None, deviceToDelete = None,
     isConnected = False, reconnectAttempts = 0, hookErrorMessage = None,
     wsRef = None, timers = [], connects = []\<rparr>"

definition render :: "dashboard \<Rightarrow> render_scope" where
  "render st = \<lparr>cap_isConnected = isConnected st, cap_reconnectAttempts = reconnectAttempts st\<rparr>"

definition connectWebSocket :: "render_scope \<Rightarrow> dashboard \<Rightarrow> dashboard" where
  "connectWebSocket sc st =
     (if cap_reconnectAttempts sc \<ge> MAX_RECONNECT_ATTEMPTS
      then st\<lparr>hookErrorMessage := Some ''Maximum reconnection attempts reached''\<rparr>
      else st\<lparr>wsRef := Some \<lparr>readyState = CONNECTING, sent = [], handlers = sc\<rparr>,
              connects := connects st @ [''ws://localhost:8080/mqtt'']\<rparr>)"

definition onopen :: "dashboard \<Rightarrow> dashboard" where
  "onopen st = st\<lparr>isConnected := True, reconnectAttempts := 0, hookErrorMessage := None\<rparr>"

text \<open>The two updaters that \<^verbatim>\<open>onmessage\<close> passes to \<^verbatim>\<open>setDevices\<close>.\<close>

definition deleteUpdater :: "frame \<Rightarrow> EspDevice list \<Rightarrow> EspDevice list" where
  "deleteUpdater data prevDevices =
     filter (\<lambda>device. deviceId device \<noteq> f_deviceId data) prevDevices"

definition upsertUpdater :: "frame \<Rightarrow> EspDevice list \<Rightarrow> EspDevice list" where
  "upsertUpdater data prevDevices =
     (if list_ex (\<lambda>d. deviceId d = f_deviceId data) prevDevices
      then map (\<lambda>device.
             if deviceId device = f_deviceId data
             then device\<lparr>lightOn := f_lightOn data, rgbMode := f_rgbmode data\<rparr>
             else device) prevDevices
      else prevDevices @
           [\<lparr>deviceId = f_deviceId data,
             name = or_else (f_name data) (''ESP_'' @ template (f_deviceId data)),
             lightOn = f_lightOn data,
             rgbMode = f_rgbmode data,
             commandTopic = f_commandTopic data\<rparr>])"

definition onmessage :: "parsed \<Rightarrow> dashboard \<Rightarrow> dashboard" where
  "onmessage p st =
     (case p of
        SyntaxError \<Rightarrow> st\<lparr>hookErrorMessage := Some ''Error processing WebSocket message''\<rparr>
      | JsonNull \<Rightarrow> st\<lparr>hookErrorMessage := Some ''Error processing WebSocket message''\<rparr>
      | JsonObject data \<Rightarrow>
          if f_type data = Some ''heartbeat'' then st
          else if f_type data = Some ''delete''
          then st\<lparr>devices := deleteUpdater data (devices st)\<rparr>
          else st\<lparr>devices := upsertUpdater data (devices st)\<rparr>)"

definition onerror :: "dashboard \<Rightarrow> dashboard" where
  "onerror st = st\<lparr>isConnected := False, hookErrorMessage := Some ''WebSocket connection failed''\<rparr>"

text \<open>\<^verbatim>\<open>onclose\<close> schedules the reconnect closure; \<open>reconnectTimer\<close> is that closure.\<close>

definition onclose :: "render_scope \<Rightarrow> dashboard \<Rightarrow> dashboard" where
  "onclose sc st = st\<lparr>isConnected := False, timers := timers st @ [sc]\<rparr>"

definition reconnectTimer :: "render_scope \<Rightarrow> dashboard \<Rightarrow> dashboard" where
  "reconnectTimer sc st =
     (if \<not> cap_isConnected sc \<and> cap_reconnectAttempts sc < MAX_RECONNECT_ATTEMPTS
      then connectWebSocket sc (st\<lparr>reconnectAttempts := reconnectAttempts st + 1\<rparr>)
      else st)"

definition deleteDevice :: "string \<Rightarrow> dashboard \<Rightarrow> dashboard" where
  "deleteDevice dev st =
     (case wsRef st of
        None \<Rightarrow> st\<lparr>hookErrorMessage := Some ''WebSocket is not connected''\<rparr>
      | Some ws \<Rightarrow>
          if readyState ws = OPEN
          then st\<lparr>wsRef := Some (ws\<lparr>sent := sent ws @ [[(''type'', ''delete''), (''deviceId'', dev)]]\<rparr>)\<rparr>
          else st\<lparr>hookErrorMessage := Some ''WebSocket is not connected''\<rparr>)"

text \<open>
  The events the page reacts to. \<open>Mount\<close> is the effect of \<^verbatim>\<open>useEffect(..., [])\<close>, which
  runs once, after the first render, with that render's \<^verbatim>\<open>connectWebSocket\<close>. The
  socket events are those of the socket in \<^verbatim>\<open>wsRef.current\<close>; the platform sets its
  \<^verbatim>\<open>readyState\<close> before the handler runs. \<open>TimerFired\<close> runs the oldest pending timer.
\<close>

datatype event = Mount | WsOpen | WsMessage parsed | WsError | WsClose | TimerFired

definition step :: "dashboard \<Rightarrow> event \<Rightarrow> dashboard" where
  "step st ev =
     (case ev of
        Mount \<Rightarrow> connectWebSocket (render st) st
      | WsOpen \<Rightarrow>
          (case wsRef st of None \<Rightarrow> st
           | Some ws \<Rightarrow> onopen (st\<lparr>wsRef := Some (ws\<lparr>readyState := OPEN\<rparr>)\<rparr>))
      | WsMessage p \<Rightarrow> onmessage p st
      | WsError \<Rightarrow> onerror st
      | WsClose \<Rightarrow>
          (case wsRef st of None \<Rightarrow> st
           | Some ws \<Rightarrow> onclose (handlers ws) (st\<lparr>wsRef := Some (ws\<lparr>readyState := CLOSED\<rparr>)\<rparr>))
      | TimerFired \<Rightarrow>
          (case timers st of [] \<Rightarrow> st
           | sc # rest \<Rightarrow> reconnectTimer sc (st\<lparr>timers := rest\<rparr>)))"

definition run :: "dashboard \<Rightarrow> event list \<Rightarrow> dashboard" where
  "run st evs = foldl step st evs"

section \<open>Deleting a device (components/MqttMessageInput.tsx, confirmDelete)\<close>

definition confirmDelete :: "dashboard \<Rightarrow> dashboard" where
  "confirmDelete st =
     (case deviceToDelete st of
        None \<Rightarrow> st
      | Some dev \<Rightarrow>
          if dev \<noteq> [] then (deleteDevice dev st)\<lparr>deviceToDelete := None\<rparr> else st)"

section \<open>The error alert (components/MqttMessageInput.tsx, SmartHomeDashboard)\<close>

text \<open>
  The page renders its alert with \<^verbatim>\<open>{errorMessage && (...)}\<close> from its own
  \<^verbatim>\<open>errorMessage\<close> cell. From the hook it takes \<^verbatim>\<open>isConnected\<close>,
  \<^verbatim>\<open>reconnectAttempts\<close>, \<^verbatim>\<open>MAX_RECONNECT_ATTEMPTS\<close> and \<^verbatim>\<open>deleteDevice\<close>; the hook's
  \<^verbatim>\<open>errorMessage\<close> is returned by the hook and not read by the page.
\<close>

definition errorAlert :: "dashboard \<Rightarrow> string option" where
  "errorAlert st =
     (case errorMessage st of None \<Rightarrow> None | Some m \<Rightarrow> if m \<noteq> [] then Some m else None)"

section \<open>Toggling power and colour mode (components/DeviceControls.tsx)\<close>

text \<open>
  \<^verbatim>\<open>publishMQTTMessage\<close> (api/api.ts) awaits one \<^verbatim>\<open>axios.post\<close>; the promise resolves or
  rejects. The network's answer to a message on a topic is the parameter \<open>post\<close>.
\<close>

datatype outcome = Resolved | Rejected

type_synonym network = "string \<Rightarrow> string option \<Rightarrow> outcome"

definition publishMQTTMessage :: "network \<Rightarrow> string \<Rightarrow> string option \<Rightarrow> outcome" where
  "publishMQTTMessage post message topic = post message topic"

text \<open>
  What one run of a handler leaves behind: the registry, the publish calls it made in
  order (the rejected one included), and its calls of \<^verbatim>\<open>setErrorMessage\<close>.
\<close>

record toggled =
  registry :: "EspDevice list"
  issued :: "(string \<times> string option) list"
  raised :: "string list"

definition optimisticLight :: "EspDevice \<Rightarrow> EspDevice list \<Rightarrow> EspDevice list" where
  "optimisticLight device prev =
     map (\<lambda>d. if deviceId d = deviceId device
               then d\<lparr>lightOn := Some (\<not> truthy (lightOn device)),
                      rgbMode := (if truthy (lightOn d) then rgbMode d else Some False)\<rparr>
               else d) prev"

definition rollbackLight :: "EspDevice \<Rightarrow> EspDevice list \<Rightarrow> EspDevice list" where
  "rollbackLight device prev =
     map (\<lambda>d. if deviceId d = deviceId device then d\<lparr>lightOn := lightOn device\<rparr> else d) prev"

text \<open>
  The handler suspends at each \<^verbatim>\<open>await\<close>; other updaters of the registry may run
  meanwhile. It does not read the registry between its optimistic update and its
  rollback, so what ran meanwhile is one function \<open>meanwhile\<close> on the registry.
\<close>

definition handleToggleLight ::
  "network \<Rightarrow> EspDevice \<Rightarrow> (EspDevice list \<Rightarrow> EspDevice list) \<Rightarrow> EspDevice list \<Rightarrow> toggled" where
  "handleToggleLight post device meanwhile prev =
     (let newState = (if truthy (lightOn device) then ''off'' else ''on'');
          cur = meanwhile (optimisticLight device prev);
          first = (newState, commandTopic device);
          second = (''offRGB'', commandTopic device);
          caught = (\<lambda>calls. \<lparr>registry = rollbackLight device cur, issued = calls,
                              raised = [''Failed to toggle light'']\<rparr>)
      in case publishMQTTMessage post newState (commandTopic device) of
           Rejected \<Rightarrow> caught [first]
         | Resolved \<Rightarrow>
             if \<not> truthy (lightOn device) \<and> truthy (rgbMode device)
             then (case publishMQTTMessage post ''offRGB'' (commandTopic device) of
                     Rejected \<Rightarrow> caught [first, second]
                   | Resolved \<Rightarrow> \<lparr>registry = cur, issued = [first, second], raised = []\<rparr>)
             else \<lparr>registry = cur, issued = [first], raised = []\<rparr>)"

definition optimisticRGB :: "EspDevice \<Rightarrow> EspDevice list \<Rightarrow> EspDevice list" where
  "optimisticRGB device prev =
     map (\<lambda>d. if deviceId d = deviceId device
               then d\<lparr>rgbMode := Some (\<not> truthy (rgbMode device)),
                      lightOn := (if truthy (rgbMode d) then lightOn d else Some False)\<rparr>
               else d) prev"

definition rollbackRGB :: "EspDevice \<Rightarrow> EspDevice list \<Rightarrow> EspDevice list" where
  "rollbackRGB device prev =
     map (\<lambda>d. if deviceId d = deviceId device then d\<lparr>rgbMode := rgbMode device\<rparr> else d) prev"

definition handleToggleRGB ::
  "network \<Rightarrow> EspDevice \<Rightarrow> (EspDevice list \<Rightarrow> EspDevice list) \<Rightarrow> EspDevice list \<Rightarrow> toggled" where
  "handleToggleRGB post device meanwhile prev =
     (let newRGBState = (if truthy (rgbMode device) then ''offRGB'' else ''onRGB'');
          cur = meanwhile (optimisticRGB device prev);
          first = (newRGBState, commandTopic device);
          second = (''off'', commandTopic device);
          caught = (\<lambda>calls. \<lparr>registry = rollbackRGB device cur, issued = calls,
                              raised = [''Failed to toggle RGB mode'']\<rparr>)
      in case publishMQTTMessage post newRGBState (commandTopic device) of
           Rejected \<Rightarrow> caught [first]
         | Resolved \<Rightarrow>
             if \<not> truthy (rgbMode device) \<and> truthy (lightOn device)
             then (case publishMQTTMessage post ''off'' (commandTopic device) of
                     Rejected \<Rightarrow> caught [first, second]
                   | Resolved \<Rightarrow> \<lparr>registry = cur, issued = [first, second], raised = []\<rparr>)
             else \<lparr>registry = cur, issued = [first], raised = []\<rparr>)"

text \<open>
  The dashboard renders one \<^verbatim>\<open>DeviceControls\<close> per element of \<^verbatim>\<open>devices\<close>, with that
  element as its \<^verbatim>\<open>device\<close> prop. A click on the power button of the \<open>i\<close>-th card runs
  the handler with the record at position \<open>i\<close>; there is no card beyond the list.
\<close>

definition clickLight :: "network \<Rightarrow> nat \<Rightarrow> EspDevice list \<Rightarrow> toggled" where
  "clickLight post i devs =
     (if i < length devs then handleToggleLight post (devs ! i) id devs
      else \<lparr>registry = devs, issued = [], raised = []\<rparr>)"

definition clickRGB :: "network \<Rightarrow> nat \<Rightarrow> EspDevice list \<Rightarrow> toggled" where
  "clickRGB post i devs =
     (if i < length devs then handleToggleRGB post (devs ! i) id devs
      else \<lparr>registry = devs, issued = [], raised = []\<rparr>)"

section \<open>Observations and scenarios\<close>

text \<open>The frames written to the socket in \<^verbatim>\<open>wsRef.current\<close>, and whether that socket is open.\<close>

definition sentFrames :: "dashboard \<Rightarrow> json_obj list" where
  "sentFrames st = (case wsRef st of None \<Rightarrow> [] | Some ws \<Rightarrow> sent ws)"

definition channelOpen :: "dashboard \<Rightarrow> bool" where
  "channelOpen st = (case wsRef st of None \<Rightarrow> False | Some ws \<Rightarrow> readyState ws = OPEN)"

text \<open>Two clicks on the power button of the \<open>i\<close>-th card, the second after the re-render.\<close>

definition lightTwice :: "network \<Rightarrow> nat \<Rightarrow> EspDevice list \<Rightarrow> EspDevice list" where
  "lightTwice post i devs = registry (clickLight post i (registry (clickLight post i devs)))"

text \<open>A relay that accepts every publish, and one that refuses every publish.\<close>

definition alwaysResolved :: network where
  "alwaysResolved message topic = Resolved"

definition alwaysRejected :: network where
  "alwaysRejected message topic = Rejected"

text \<open>A lamp that is off with colour mode on, and one with power and colour mode both on.\<close>

definition lampA :: EspDevice where
  "lampA = \<lparr>deviceId = Some ''A'', name = ''Lamp'', lightOn = Some False,
             rgbMode = Some True, commandTopic = Some ''t/A''\<rparr>"

definition lampBothOn :: EspDevice where
  "lampBothOn = \<lparr>deviceId = Some ''A'', name = ''Lamp'', lightOn = Some True,
             rgbMode = Some True, commandTopic = Some ''t/A''\<rparr>"

text \<open>
  Frames: a device event for \<^verbatim>\<open>"A"\<close> that carries a name and a topic, the heartbeat
  \<^verbatim>\<open>{"type":"heartbeat"}\<close>, the empty object \<^verbatim>\<open>{}\<close>, and a delete event for \<^verbatim>\<open>"A"\<close>.
\<close>

definition serverOn :: frame where
  "serverOn = \<lparr>f_type = None, f_deviceId = Some ''A'', f_name = Some ''Desk'',
       f_lightOn = Some True, f_rgbmode = Some False, f_commandTopic = Some ''t/B''\<rparr>"

definition heartbeat :: frame where
  "heartbeat = \<lparr>f_type = Some ''heartbeat'', f_deviceId = None, f_name = None,
       f_lightOn = None, f_rgbmode = None, f_commandTopic = None\<rparr>"

definition noFields :: frame where
  "noFields = \<lparr>f_type = None, f_deviceId = None, f_name = None,
       f_lightOn = None, f_rgbmode = None, f_commandTopic = None\<rparr>"


text \<open>A page with one lamp whose socket is open, and the same page with the socket closed.\<close>

definition openChannel :: dashboard where
  "openChannel = initial\<lparr>devices := [lampA], isConnected := True,
     wsRef := Some \<lparr>readyState = OPEN, sent = [],
                     handlers = \<lparr>cap_isConnected = False, cap_reconnectAttempts = 0\<rparr>\<rparr>,
     connects := [''ws://localhost:8080/mqtt'']\<rparr>"

definition closedChannel :: dashboard where
  "closedChannel = initial\<lparr>devices := [lampA],
     wsRef := Some \<lparr>readyState = CLOSED, sent = [],
                     handlers = \<lparr>cap_isConnected = False, cap_reconnectAttempts = 0\<rparr>\<rparr>,
     connects := [''ws://localhost:8080/mqtt'']\<rparr>"

text \<open>
  The page is mounted, then the socket closes and the reconnect timer fires, five times
  over, with no open event in between. \<open>closures n\<close> is \<open>n\<close> such rounds.
\<close>

definition fiveClosures :: "event list" where
  "fiveClosures = [Mount, WsClose, TimerFired, WsClose, TimerFired, WsClose, TimerFired,
                   WsClose, TimerFired, WsClose, TimerFired]"

fun closures :: "nat \<Rightarrow> event list" where
  "closures 0 = []"
| "closures (Suc n) = closures n @ [WsClose, TimerFired]"

text \<open>
  The states reached after the mount while no timer is pending: the current socket's
  handlers hold the constants of the first render.
\<close>

definition mounted :: "dashboard \<Rightarrow> bool" where
  "mounted st = (timers st = [] \<and>
     (case wsRef st of None \<Rightarrow> False
      | Some ws \<Rightarrow> \<not> cap_isConnected (handlers ws) \<and> cap_reconnectAttempts (handlers ws) = 0))"

section \<open>Toggling power\<close>

lemma map_deviceId_optimisticLight: "map deviceId (optimisticLight device devs) = map deviceId devs"
  by (simp add: optimisticLight_def comp_def if_distrib cong: if_cong)

lemma map_deviceId_rollbackLight: "map deviceId (rollbackLight device devs) = map deviceId devs"
  by (simp add: rollbackLight_def comp_def if_distrib cong: if_cong)

lemma map_deviceId_optimisticRGB: "map deviceId (optimisticRGB device devs) = map deviceId devs"
  by (simp add: optimisticRGB_def comp_def if_distrib cong: if_cong)

lemma map_deviceId_rollbackRGB: "map deviceId (rollbackRGB device devs) = map deviceId devs"
  by (simp add: rollbackRGB_def comp_def if_distrib cong: if_cong)

lemma rollbackLight_sets:
  "d \<in> set (rollbackLight device cur) \<Longrightarrow> deviceId d = deviceId device \<Longrightarrow> lightOn d = lightOn device"
  by (auto simp: rollbackLight_def split: if_splits)

text \<open>
  C1, as stated, fails. A lamp that is off with colour mode on is toggled twice, both
  publishes accepted: the first toggle turns the power on and forces colour mode off, the
  second turns the power off and leaves colour mode off. Colour mode is not restored.
\<close>

theorem toggle_twice_loses_colour_mode:
  "lightOn lampA = Some False \<and> rgbMode lampA = Some True \<and>
   rgbMode (lightTwice alwaysResolved 0 [lampA] ! 0) = Some False"
  by (simp add: lightTwice_def clickLight_def handleToggleLight_def optimisticLight_def
      publishMQTTMessage_def alwaysResolved_def lampA_def truthy_def Let_def)

text \<open>
  C1, amended. For every record of the registry whose power flag is a boolean, toggling
  power twice with every publish accepted restores the power flag; colour mode is off
  afterwards, whatever it was before.
\<close>

theorem toggle_twice_restores_power:
  assumes "i < length devs" and "lightOn (devs ! i) = Some b"
  shows "lightOn (lightTwice alwaysResolved i devs ! i) = Some b \<and>
         rgbMode (lightTwice alwaysResolved i devs ! i) = Some False"
  using assms
  by (cases b) (simp_all add: lightTwice_def clickLight_def handleToggleLight_def optimisticLight_def
      publishMQTTMessage_def alwaysResolved_def truthy_def Let_def)

text \<open>C1, amended, on the one-lamp registry.\<close>

theorem toggle_twice_restores_power_witness:
  "(0::nat) < length [lampA] \<and> lightOn ([lampA] ! 0) = Some False \<and>
   lightOn (lightTwice alwaysResolved 0 [lampA] ! 0) = Some False \<and>
   rgbMode (lightTwice alwaysResolved 0 [lampA] ! 0) = Some False"
  using toggle_twice_restores_power [of 0 "[lampA]" False]
  by (simp add: lampA_def)

text \<open>
  C2. The device is off and is toggled; the publish of \<^verbatim>\<open>"on"\<close> is rejected, or it is
  accepted and the publish of \<^verbatim>\<open>"offRGB"\<close> that follows it for a lamp in colour mode is
  rejected. Whatever other updaters ran on the registry while the handler was suspended,
  every record with the device's id then has its power flag off, the value of the
  snapshot, and the handler has called \<^verbatim>\<open>setErrorMessage\<close> exactly once. With nothing
  running meanwhile the registry holds the same ids in the same order as before.
\<close>

theorem failed_toggle_rolls_back:
  assumes off: "lightOn device = Some False"
    and fails: "post ''on'' (commandTopic device) = Rejected \<or>
                (truthy (rgbMode device) \<and> post ''offRGB'' (commandTopic device) = Rejected)"
  shows "(\<forall>d \<in> set (registry (handleToggleLight post device meanwhile prev)).
            deviceId d = deviceId device \<longrightarrow> lightOn d = Some False) \<and>
         raised (handleToggleLight post device meanwhile prev) = [''Failed to toggle light''] \<and>
         map deviceId (registry (handleToggleLight post device id prev)) = map deviceId prev"
proof -
  have reg: "registry (handleToggleLight post device m prev) =
               rollbackLight device (m (optimisticLight device prev))"
    and err: "raised (handleToggleLight post device m prev) = [''Failed to toggle light'']" for m
    using off fails
    by (auto simp: handleToggleLight_def publishMQTTMessage_def truthy_def Let_def
        split: outcome.splits)
  show ?thesis
    using off
    by (auto simp: reg err map_deviceId_rollbackLight map_deviceId_optimisticLight
        dest: rollbackLight_sets)
qed

text \<open>
  C2 on the lamp, with a device event that reports the lamp on arriving while the
  publish is pending: the rollback writes the snapshot's value over it.
\<close>

theorem failed_toggle_rolls_back_witness:
  "lightOn lampA = Some False \<and>
   alwaysRejected ''on'' (commandTopic lampA) = Rejected \<and>
   map deviceId (registry (handleToggleLight alwaysRejected lampA (upsertUpdater serverOn) [lampA]))
     = [Some ''A''] \<and>
   map lightOn (upsertUpdater serverOn (optimisticLight lampA [lampA])) = [Some True] \<and>
   map lightOn (registry (handleToggleLight alwaysRejected lampA (upsertUpdater serverOn) [lampA]))
     = [Some False] \<and>
   raised (handleToggleLight alwaysRejected lampA (upsertUpdater serverOn) [lampA])
     = [''Failed to toggle light'']"
  using failed_toggle_rolls_back [of lampA alwaysRejected "upsertUpdater serverOn" "[lampA]"]
  by (simp add: lampA_def alwaysRejected_def handleToggleLight_def publishMQTTMessage_def
      truthy_def Let_def rollbackLight_def optimisticLight_def upsertUpdater_def serverOn_def)

section \<open>Reconnecting\<close>

lemmas channel_defs = run_def step_def initial_def render_def connectWebSocket_def onclose_def
  reconnectTimer_def MAX_RECONNECT_ATTEMPTS_def

text \<open>
  C3 at the input where the code departs from it. After the mount and five closures, each
  followed by its timer, a sixth socket has been constructed and is connecting, no error
  message is set, and the counter reads 5; a sixth closure leads to a seventh socket.
  The timer and \<^verbatim>\<open>connectWebSocket\<close> compare the \<^verbatim>\<open>reconnectAttempts\<close> of the first
  render, which is 0, with the maximum.
\<close>

theorem five_closures_still_reconnecting:
  "length (connects (run initial fiveClosures)) = 6 \<and>
   map_option readyState (wsRef (run initial fiveClosures)) = Some CONNECTING \<and>
   hookErrorMessage (run initial fiveClosures) = None \<and>
   reconnectAttempts (run initial fiveClosures) = 5 \<and>
   length (connects (run initial (fiveClosures @ [WsClose, TimerFired]))) = 7"
  by (simp add: fiveClosures_def channel_defs)

text \<open>The same for any number of closures: each one is followed by a new socket.\<close>

lemma mounted_closure:
  assumes "mounted st"
  shows "mounted (run st [WsClose, TimerFired]) \<and>
         length (connects (run st [WsClose, TimerFired])) = Suc (length (connects st)) \<and>
         hookErrorMessage (run st [WsClose, TimerFired]) = hookErrorMessage st"
  using assms
  by (auto simp: mounted_def channel_defs split: option.splits)

lemma run_append: "run st (xs @ ys) = run (run st xs) ys"
  by (simp add: run_def)

lemma closures_keep_reconnecting:
  "mounted st \<Longrightarrow> mounted (run st (closures n)) \<and>
     length (connects (run st (closures n))) = length (connects st) + n \<and>
     hookErrorMessage (run st (closures n)) = hookErrorMessage st"
proof (induction n)
  case 0
  then show ?case by (simp add: run_def)
next
  case (Suc n)
  then show ?case
    using mounted_closure [of "run st (closures n)"] by (simp add: run_append)
qed

lemma never_gives_up:
  "length (connects (run initial (Mount # closures n))) = n + 1 \<and>
   hookErrorMessage (run initial (Mount # closures n)) = None"
proof -
  have m: "mounted (run initial [Mount])"
    by (simp add: mounted_def channel_defs)
  have "run initial (Mount # closures n) = run (run initial [Mount]) (closures n)"
    by (simp add: run_def)
  then show ?thesis
    using closures_keep_reconnecting [OF m, of n] by (simp add: channel_defs)
qed

section \<open>Inbound frames\<close>

text \<open>
  C4, as stated, fails for a frame that parses but has no \<^verbatim>\<open>deviceId\<close>. The frame
  \<^verbatim>\<open>{}\<close> arrives on the empty registry: a record with an undefined id and the name
  \<^verbatim>\<open>ESP_undefined\<close> is appended, and no error message is set.
\<close>

theorem frame_without_deviceId_is_stored:
  "f_deviceId noFields = None \<and>
   devices (onmessage (JsonObject noFields) initial) =
     [\<lparr>deviceId = None, name = ''ESP_undefined'', lightOn = None, rgbMode = None,
       commandTopic = None\<rparr>] \<and>
   devices (onmessage (JsonObject noFields) initial) \<noteq> devices initial \<and>
   hookErrorMessage (onmessage (JsonObject noFields) initial) = None"
  by (simp add: noFields_def onmessage_def upsertUpdater_def initial_def or_else_def template_def)

text \<open>
  C4, amended. A frame that \<^verbatim>\<open>JSON.parse\<close> rejects, or that parses to \<^verbatim>\<open>null\<close>, is
  caught: the handler returns, the hook's error message becomes
  \<^verbatim>\<open>Error processing WebSocket message\<close>, and nothing else changes; the registry in
  particular is the same.
\<close>

theorem unparseable_frame_is_caught:
  "onmessage SyntaxError st = st\<lparr>hookErrorMessage := Some ''Error processing WebSocket message''\<rparr> \<and>
   onmessage JsonNull st = st\<lparr>hookErrorMessage := Some ''Error processing WebSocket message''\<rparr> \<and>
   devices (onmessage SyntaxError st) = devices st \<and>
   devices (onmessage JsonNull st) = devices st"
  by (simp add: onmessage_def)

section \<open>Toggling colour mode\<close>

text \<open>
  C5, as stated, fails. Colour mode is disabled on a lamp whose power is on, every
  publish accepted: the handler publishes \<^verbatim>\<open>"offRGB"\<close> and nothing after it.
\<close>

theorem disabling_colour_mode_publishes_once:
  "lightOn lampBothOn = Some True \<and> rgbMode lampBothOn = Some True \<and>
   issued (handleToggleRGB alwaysResolved lampBothOn id [lampBothOn]) = [(''offRGB'', Some ''t/A'')] \<and>
   issued (handleToggleRGB alwaysResolved lampBothOn id [lampBothOn])
     \<noteq> [(''offRGB'', Some ''t/A''), (''off'', Some ''t/A'')]"
  by (simp add: lampBothOn_def handleToggleRGB_def publishMQTTMessage_def alwaysResolved_def
      truthy_def Let_def)

text \<open>
  C5, amended. With every publish on the device's topic accepted, toggling colour mode
  publishes \<^verbatim>\<open>"offRGB"\<close> alone when colour mode was on, whether the power was on or
  off; it publishes \<^verbatim>\<open>"onRGB"\<close> followed by \<^verbatim>\<open>"off"\<close> when colour mode was off and the
  power was on, and \<^verbatim>\<open>"onRGB"\<close> alone when both were off.
\<close>

theorem toggle_rgb_publishes:
  assumes "\<forall>message. post message (commandTopic device) = Resolved"
  shows "issued (handleToggleRGB post device meanwhile prev) =
           (if truthy (rgbMode device) then [(''offRGB'', commandTopic device)]
            else if truthy (lightOn device)
                 then [(''onRGB'', commandTopic device), (''off'', commandTopic device)]
                 else [(''onRGB'', commandTopic device)])"
  using assms by (simp add: handleToggleRGB_def publishMQTTMessage_def Let_def)

text \<open>C5, amended, on the lamp with both modes on and on the lamp with only the power on.\<close>

theorem toggle_rgb_publishes_witness:
  "(\<forall>message. alwaysResolved message (commandTopic lampBothOn) = Resolved) \<and>
   issued (handleToggleRGB alwaysResolved lampBothOn id [lampBothOn]) = [(''offRGB'', Some ''t/A'')] \<and>
   issued (handleToggleRGB alwaysResolved (lampBothOn\<lparr>rgbMode := Some False\<rparr>) id
             [lampBothOn\<lparr>rgbMode := Some False\<rparr>])
      = [(''onRGB'', Some ''t/A''), (''off'', Some ''t/A'')]"
  using toggle_rgb_publishes [of alwaysResolved lampBothOn id "[lampBothOn]"]
    toggle_rgb_publishes [of alwaysResolved "lampBothOn\<lparr>rgbMode := Some False\<rparr>" id
      "[lampBothOn\<lparr>rgbMode := Some False\<rparr>]"]
  by (simp add: alwaysResolved_def lampBothOn_def truthy_def)

section \<open>Device events\<close>

text \<open>
  C6, as stated, fails. The registry holds the lamp \<^verbatim>\<open>"A"\<close>, named \<^verbatim>\<open>Lamp\<close>, on topic
  \<^verbatim>\<open>t/A\<close>; a device event for \<^verbatim>\<open>"A"\<close> carries the name \<^verbatim>\<open>Desk\<close> and the topic
  \<^verbatim>\<open>t/B\<close>. The record takes the event's power and colour flags and keeps its name and
  its topic.
\<close>

theorem upsert_keeps_name_and_topic:
  "deviceId lampA = f_deviceId serverOn \<and>
   f_name serverOn = Some ''Desk'' \<and> f_commandTopic serverOn = Some ''t/B'' \<and>
   devices (onmessage (JsonObject serverOn) (initial\<lparr>devices := [lampA]\<rparr>)) =
     [\<lparr>deviceId = Some ''A'', name = ''Lamp'', lightOn = Some True, rgbMode = Some False,
       commandTopic = Some ''t/A''\<rparr>]"
  by (simp add: serverOn_def lampA_def onmessage_def upsertUpdater_def initial_def)

text \<open>
  C6, amended. For a frame that is neither a heartbeat nor a delete event: if a record
  with the frame's id exists, the registry keeps its length and order, every record with
  that id takes the frame's power and colour flags and keeps every other field (name and
  topic included), and every other record is untouched; otherwise one record is appended,
  with the frame's id, flags and topic, and with the frame's name, or
  \<^verbatim>\<open>"ESP_"\<close> followed by the id when the frame has no name or an empty one.
\<close>

theorem upsert_effect:
  assumes "f_type data \<noteq> Some ''heartbeat''" and "f_type data \<noteq> Some ''delete''"
  shows "(if \<exists>d \<in> set (devices st). deviceId d = f_deviceId data
          then length (devices (onmessage (JsonObject data) st)) = length (devices st) \<and>
               (\<forall>i < length (devices st).
                  devices (onmessage (JsonObject data) st) ! i =
                    (if deviceId (devices st ! i) = f_deviceId data
                     then (devices st ! i)\<lparr>lightOn := f_lightOn data, rgbMode := f_rgbmode data\<rparr>
                     else devices st ! i))
          else devices (onmessage (JsonObject data) st) =
                 devices st @
                 [\<lparr>deviceId = f_deviceId data,
                   name = (case f_name data of
                             None \<Rightarrow> ''ESP_'' @ template (f_deviceId data)
                           | Some n \<Rightarrow> if n = [] then ''ESP_'' @ template (f_deviceId data) else n),
                   lightOn = f_lightOn data, rgbMode = f_rgbmode data,
                   commandTopic = f_commandTopic data\<rparr>])"
  using assms
  by (auto simp: onmessage_def upsertUpdater_def list_ex_iff or_else_def split: option.splits)

text \<open>C6, amended, on the registry that holds the lamp and on the empty registry.\<close>

theorem upsert_effect_witness:
  "f_type serverOn \<noteq> Some ''heartbeat'' \<and> f_type serverOn \<noteq> Some ''delete'' \<and>
   (\<exists>d \<in> set (devices (initial\<lparr>devices := [lampA]\<rparr>)). deviceId d = f_deviceId serverOn) \<and>
   (0::nat) < length (devices (initial\<lparr>devices := [lampA]\<rparr>)) \<and>
   devices (onmessage (JsonObject serverOn) (initial\<lparr>devices := [lampA]\<rparr>)) ! 0 =
     lampA\<lparr>lightOn := Some True, rgbMode := Some False\<rparr> \<and>
   \<not> (\<exists>d \<in> set (devices initial). deviceId d = f_deviceId serverOn) \<and>
   devices (onmessage (JsonObject serverOn) initial) =
     [\<lparr>deviceId = Some ''A'', name = ''Desk'', lightOn = Some True, rgbMode = Some False,
       commandTopic = Some ''t/B''\<rparr>]"
  using upsert_effect [of serverOn "initial\<lparr>devices := [lampA]\<rparr>"]
    upsert_effect [of serverOn initial]
  by (simp add: serverOn_def lampA_def initial_def)

section \<open>Sending the delete command\<close>

text \<open>
  \<^verbatim>\<open>deleteDevice\<close> writes the frame with \<^verbatim>\<open>type\<close> \<^verbatim>\<open>"delete"\<close> and the given id to
  the socket exactly when the socket is open. When it is not (no socket, connecting,
  closing or closed) the only change is the hook's error message, set to
  \<^verbatim>\<open>WebSocket is not connected\<close>: nothing is sent and nothing is kept for later.
\<close>

lemma deleteDevice_sends_iff_open:
  "(channelOpen st \<longrightarrow>
      sentFrames (deleteDevice dev st) = sentFrames st @ [[(''type'', ''delete''), (''deviceId'', dev)]] \<and>
      hookErrorMessage (deleteDevice dev st) = hookErrorMessage st) \<and>
   (\<not> channelOpen st \<longrightarrow>
      deleteDevice dev st = st\<lparr>hookErrorMessage := Some ''WebSocket is not connected''\<rparr> \<and>
      sentFrames (deleteDevice dev st) = sentFrames st) \<and>
   (sentFrames (deleteDevice dev st) \<noteq> sentFrames st \<longleftrightarrow> channelOpen st)"
  by (auto simp: deleteDevice_def channelOpen_def sentFrames_def split: option.splits)

lemma deleteDevice_sends_iff_open_example:
  "channelOpen openChannel \<and>
   sentFrames (deleteDevice ''A'' openChannel) = [[(''type'', ''delete''), (''deviceId'', ''A'')]] \<and>
   hookErrorMessage (deleteDevice ''A'' openChannel) = None \<and>
   \<not> channelOpen closedChannel \<and>
   sentFrames (deleteDevice ''A'' closedChannel) = [] \<and>
   hookErrorMessage (deleteDevice ''A'' closedChannel) = Some ''WebSocket is not connected''"
  using deleteDevice_sends_iff_open [of openChannel "''A''"]
    deleteDevice_sends_iff_open [of closedChannel "''A''"]
  by (simp add: openChannel_def closedChannel_def channelOpen_def sentFrames_def initial_def)

text \<open>
  The caller of \<^verbatim>\<open>deleteDevice\<close> learns nothing from it: the function returns no value
  on either branch and never writes the page's \<^verbatim>\<open>errorMessage\<close>, so the alert the page
  renders after \<^verbatim>\<open>confirmDelete\<close> is the one it rendered before.
\<close>

lemma errorMessage_deleteDevice: "errorMessage (deleteDevice dev st) = errorMessage st"
  by (simp add: deleteDevice_def split: option.splits)

lemma errorAlert_confirmDelete: "errorAlert (confirmDelete st) = errorAlert st"
  by (simp add: errorAlert_def confirmDelete_def errorMessage_deleteDevice split: option.splits)

text \<open>
  C7 at the input where the code departs from it. The lamp \<^verbatim>\<open>"A"\<close> is chosen for
  deletion and confirmed while the socket is closed. Nothing is sent and the hook's own
  message becomes \<^verbatim>\<open>WebSocket is not connected\<close>, but the not-connected condition does
  not reach the caller: the page's \<^verbatim>\<open>errorMessage\<close> stays empty, no alert is rendered,
  and the choice is cleared, exactly as after a confirmation on the open socket.
\<close>

theorem delete_on_closed_channel_not_surfaced:
  "\<not> channelOpen (closedChannel\<lparr>deviceToDelete := Some ''A''\<rparr>) \<and>
   sentFrames (confirmDelete (closedChannel\<lparr>deviceToDelete := Some ''A''\<rparr>)) = [] \<and>
   hookErrorMessage (confirmDelete (closedChannel\<lparr>deviceToDelete := Some ''A''\<rparr>))
     = Some ''WebSocket is not connected'' \<and>
   errorMessage (confirmDelete (closedChannel\<lparr>deviceToDelete := Some ''A''\<rparr>)) = None \<and>
   errorAlert (confirmDelete (closedChannel\<lparr>deviceToDelete := Some ''A''\<rparr>)) = None \<and>
   deviceToDelete (confirmDelete (closedChannel\<lparr>deviceToDelete := Some ''A''\<rparr>)) = None \<and>
   channelOpen (openChannel\<lparr>deviceToDelete := Some ''A''\<rparr>) \<and>
   errorAlert (confirmDelete (openChannel\<lparr>deviceToDelete := Some ''A''\<rparr>)) = None \<and>
   deviceToDelete (confirmDelete (openChannel\<lparr>deviceToDelete := Some ''A''\<rparr>)) = None"
  by (simp add: closedChannel_def openChannel_def initial_def channelOpen_def sentFrames_def
      confirmDelete_def deleteDevice_def errorAlert_def)

section \<open>Unique device ids\<close>

lemma map_deviceId_upsertUpdater_known:
  "list_ex (\<lambda>d. deviceId d = f_deviceId data) devs \<Longrightarrow>
   map deviceId (upsertUpdater data devs) = map deviceId devs"
  by (simp add: upsertUpdater_def comp_def if_distrib cong: if_cong)

lemma distinct_upsertUpdater:
  assumes "distinct (map deviceId devs)"
  shows "distinct (map deviceId (upsertUpdater data devs))"
proof (cases "list_ex (\<lambda>d. deviceId d = f_deviceId data) devs")
  case True
  with assms show ?thesis by (simp add: map_deviceId_upsertUpdater_known)
next
  case False
  then have "f_deviceId data \<notin> deviceId ` set devs"
    by (auto simp: list_ex_iff)
  with assms False show ?thesis
    by (simp add: upsertUpdater_def)
qed

lemma distinct_deleteUpdater:
  "distinct (map deviceId devs) \<Longrightarrow> distinct (map deviceId (deleteUpdater data devs))"
  by (simp add: deleteUpdater_def distinct_map_filter)

lemma distinct_onmessage:
  "distinct (map deviceId (devices st)) \<Longrightarrow> distinct (map deviceId (devices (onmessage p st)))"
  by (cases p) (simp_all add: onmessage_def distinct_upsertUpdater distinct_deleteUpdater)

text \<open>
  C8. If no device id occurs twice in the registry, none occurs twice after any inbound
  frame (device event, delete event, heartbeat or malformed frame), after the optimistic
  update or the rollback of either toggle, or after a whole run of either toggle handler,
  whatever the network answers.
\<close>

theorem deviceId_unique_preserved:
  assumes "distinct (map deviceId (devices st))"
  shows "distinct (map deviceId (devices (onmessage p st))) \<and>
         distinct (map deviceId (optimisticLight device (devices st))) \<and>
         distinct (map deviceId (rollbackLight device (devices st))) \<and>
         distinct (map deviceId (optimisticRGB device (devices st))) \<and>
         distinct (map deviceId (rollbackRGB device (devices st))) \<and>
         distinct (map deviceId (registry (handleToggleLight post device id (devices st)))) \<and>
         distinct (map deviceId (registry (handleToggleRGB post device id (devices st))))"
proof -
  have "map deviceId (registry (handleToggleLight post device id (devices st)))
          = map deviceId (devices st)"
    by (simp add: handleToggleLight_def Let_def map_deviceId_optimisticLight
        map_deviceId_rollbackLight split: outcome.splits)
  moreover have "map deviceId (registry (handleToggleRGB post device id (devices st)))
          = map deviceId (devices st)"
    by (simp add: handleToggleRGB_def Let_def map_deviceId_optimisticRGB
        map_deviceId_rollbackRGB split: outcome.splits)
  ultimately show ?thesis
    using assms
    by (simp add: distinct_onmessage map_deviceId_optimisticLight map_deviceId_rollbackLight
        map_deviceId_optimisticRGB map_deviceId_rollbackRGB)
qed

text \<open>C8 on the page with one lamp, for a device event about that lamp.\<close>

theorem deviceId_unique_preserved_witness:
  "distinct (map deviceId (devices openChannel)) \<and>
   map deviceId (devices (onmessage (JsonObject serverOn) openChannel)) = [Some ''A''] \<and>
   distinct (map deviceId (devices (onmessage (JsonObject serverOn) openChannel))) \<and>
   distinct (map deviceId (optimisticLight lampA (devices openChannel)))"
  using deviceId_unique_preserved [of openChannel "JsonObject serverOn" lampA alwaysResolved]
  by (simp add: openChannel_def initial_def lampA_def serverOn_def onmessage_def upsertUpdater_def)

section \<open>Heartbeat frames\<close>

text \<open>
  C9. A frame whose \<^verbatim>\<open>type\<close> is \<^verbatim>\<open>"heartbeat"\<close> changes nothing: the registry keeps the
  same records, field for field, and the reconnect counter, the connection flag, the
  socket and the error message stay as they were.
\<close>

theorem heartbeat_noop:
  "f_type data = Some ''heartbeat'' \<Longrightarrow> onmessage (JsonObject data) st = st"
  by (simp add: onmessage_def)

text \<open>C9 for the frame \<^verbatim>\<open>{"type":"heartbeat"}\<close> on a page with one lamp and a counter of 3.\<close>

theorem heartbeat_noop_witness:
  "f_type heartbeat = Some ''heartbeat'' \<and>
   onmessage (JsonObject heartbeat) (openChannel\<lparr>reconnectAttempts := 3\<rparr>)
     = openChannel\<lparr>reconnectAttempts := 3\<rparr>"
  using heartbeat_noop [of heartbeat "openChannel\<lparr>reconnectAttempts := 3\<rparr>"]
  by (simp add: heartbeat_def)

section \<open>The delete action\<close>







end
